theory Spec2Isabelle
  imports Complex_Main "HOL-Library.Sublist"
begin

section \<open>Data model\<close>

text \<open>
  The embedding follows \<^verbatim>\<open>backend/models/course.py\<close>, \<^verbatim>\<open>backend/models/schedule.py\<close> and
  \<^verbatim>\<open>backend/services/schedule_generator.py\<close>. Only the fields the generator reads are kept.
  Python floats are idealised as reals; a \<^verbatim>\<open>dict\<close> is an association list in insertion
  order; \<^verbatim>\<open>Optional[T]\<close> is \<open>T option\<close>. A leading underscore of a Python name is dropped,
  since an Isabelle name cannot start with one.
\<close>

subsection \<open>Times of day\<close>

text \<open>
  \<^verbatim>\<open>datetime.time\<close>: hour, minute, second and microsecond, compared lexicographically.
\<close>

datatype time = Time (hour: nat) (minute: nat) (second: nat) (microsecond: nat)

fun time_less :: "time \<Rightarrow> time \<Rightarrow> bool" where
  "time_less (Time h1 m1 s1 u1) (Time h2 m2 s2 u2) =
     (h1 < h2 \<or> (h1 = h2 \<and> (m1 < m2 \<or> (m1 = m2 \<and> (s1 < s2 \<or> (s1 = s2 \<and> u1 < u2))))))"

definition time_le :: "time \<Rightarrow> time \<Rightarrow> bool" where
  "time_le a b = (time_less a b \<or> a = b)"

text \<open>\<^verbatim>\<open>time(h, m)\<close> as the source writes its constants.\<close>

definition time_hm :: "nat \<Rightarrow> nat \<Rightarrow> time" where
  "time_hm h m = Time h m 0 0"

subsection \<open>Course data\<close>

record Timeslot =
  start_time :: time
  end_time :: time

record Meeting =
  timeslots :: "Timeslot list"
  days :: string

text \<open>\<^verbatim>\<open>Professor.id\<close> and \<^verbatim>\<open>Section.id\<close> are renamed: \<open>id\<close> is the identity of HOL.\<close>

record Professor =
  prof_id :: "int option"
  name :: string
  rating :: "real option"

text \<open>
  \<^verbatim>\<open>Section.final_exam\<close> is an optional dictionary, of which the generator reads the key
  \<^verbatim>\<open>'date'\<close>. \<^verbatim>\<open>credits\<close> is not a declared field of \<^verbatim>\<open>Section\<close>; the class accepts
  extra fields and the generator reads \<^verbatim>\<open>section.credits\<close>, so the attribute is taken as
  present, with \<open>None\<close> for Python's \<^verbatim>\<open>None\<close>.
\<close>

record Section =
  section_id :: string
  course_id :: string
  capacity :: "int option"
  enrolled :: "int option"
  meetings :: "Meeting list option"
  professors :: "Professor list option"
  final_exam :: "(string \<times> string) list option"
  credits :: "real option"

subsection \<open>Truthiness\<close>

text \<open>Python's truth value of an optional number, list or string: \<^verbatim>\<open>None\<close>, zero and empty are false.\<close>

definition truthy_int :: "int option \<Rightarrow> bool" where
  "truthy_int x = (case x of None \<Rightarrow> False | Some v \<Rightarrow> v \<noteq> 0)"

definition truthy_real :: "real option \<Rightarrow> bool" where
  "truthy_real x = (case x of None \<Rightarrow> False | Some v \<Rightarrow> v \<noteq> 0)"

definition truthy_list :: "'a list option \<Rightarrow> bool" where
  "truthy_list x = (case x of None \<Rightarrow> False | Some v \<Rightarrow> v \<noteq> [])"

text \<open>\<^verbatim>\<open>x or []\<close> for an optional list, and \<^verbatim>\<open>x or 0\<close> for an optional number.\<close>

definition list_or_empty :: "'a list option \<Rightarrow> 'a list" where
  "list_or_empty x = (case x of None \<Rightarrow> [] | Some v \<Rightarrow> v)"

definition real_or_0 :: "real option \<Rightarrow> real" where
  "real_or_0 x = (case x of None \<Rightarrow> 0 | Some v \<Rightarrow> v)"

section \<open>Time and conflict primitives\<close>

text \<open>\<^verbatim>\<open>_timeslots_overlap\<close>\<close>

definition timeslots_overlap :: "Timeslot \<Rightarrow> Timeslot \<Rightarrow> bool" where
  "timeslots_overlap timeslot1 timeslot2 =
     (time_less (start_time timeslot1) (end_time timeslot2) \<and>
      time_less (start_time timeslot2) (end_time timeslot1))"

section \<open>Schedule models\<close>

text \<open>
  The \<^verbatim>\<open>details\<close> of a conflict are an f-string of the source; each constructor stands for
  one template with its arguments:
  \<^verbatim>\<open>f"Time conflict between {section1.course_id} and {section2.course_id}"\<close>,
  \<^verbatim>\<open>f"Final exam conflict on {exam_date}"\<close> and
  \<^verbatim>\<open>f"Multiple sections with same professor (ID: {professor_id})"\<close>.
\<close>

datatype details =
    Time_conflict_between string string
  | Final_exam_conflict_on string
  | Same_professor_ID "int option"

record ScheduleConflict =
  section1_id :: string
  section2_id :: string
  conflict_type :: string
  details :: details
  severity :: string

text \<open>
  \<^verbatim>\<open>ScheduleConstraints\<close> accepts extra fields; the generator looks for the extra attribute
  \<^verbatim>\<open>min_quality_score\<close> with \<^verbatim>\<open>hasattr\<close>, so \<open>None\<close> is "no such attribute" here.
\<close>

record ScheduleConstraints =
  min_credits :: "real option"
  max_credits :: "real option"
  no_early_morning :: bool
  no_late_evening :: bool
  preferred_days :: "string list option"
  min_quality_score :: "real option"

record SchedulePreferences =
  workload_weight :: real
  rating_weight :: real
  time_preference_weight :: real
  professor_weight :: real
  preferred_professors :: "string list option"
  avoided_professors :: "string list option"

text \<open>\<^verbatim>\<open>SchedulePreferences.validate_weights\<close>\<close>

definition validate_weights :: "SchedulePreferences \<Rightarrow> bool" where
  "validate_weights p =
     (let total = workload_weight p + rating_weight p + time_preference_weight p
                  + professor_weight p
      in \<bar>total - 1\<bar> < 1 / 100)"

record ScheduleRequest =
  course_ids :: "string list"
  season_code :: string
  constraints :: "ScheduleConstraints option"
  preferences :: "SchedulePreferences option"
  max_options :: int
  include_full_sections :: bool

text \<open>
  The \<^verbatim>\<open>metadata\<close> dictionaries of \<^verbatim>\<open>ScheduleOption\<close> and \<^verbatim>\<open>GeneratedSchedule\<close> have fixed
  keys in the generator and are flattened into fields.
\<close>

record ScheduleOption =
  sections :: "Section list"
  total_credits :: real
  quality_score :: real
  conflicts :: "details list"
  generation_time :: nat
  course_count :: nat
  has_conflicts :: bool

record GeneratedSchedule =
  request_id :: nat
  gen_season_code :: string
  options :: "ScheduleOption list"
  total_options_generated :: nat
  processing_time_ms :: int
  courses_requested :: "string list"
  valid_schedules_found :: nat
  schedules_with_conflicts :: nat
  average_quality :: real
  constraints_applied :: bool
  preferences_applied :: bool

subsection \<open>Exceptions\<close>

text \<open>
  \<^verbatim>\<open>ScheduleGeneratorError(message, error_code)\<close> and the built-in \<^verbatim>\<open>ZeroDivisionError\<close>.
  The messages are the three templates of the source:
  \<^verbatim>\<open>f"No available sections for courses: {missing_courses}"\<close>,
  \<^verbatim>\<open>"Minimum credits cannot be greater than maximum credits"\<close> and
  \<^verbatim>\<open>f"Schedule generation failed: {str(e)}"\<close>.
\<close>

datatype error_code = NO_SECTIONS_AVAILABLE | INVALID_CREDIT_CONSTRAINTS | GENERATION_FAILED

datatype exn =
    ScheduleGeneratorError msg error_code
  | ZeroDivisionError
and msg =
    No_available_sections_for_courses "string list"
  | Minimum_credits_greater_than_maximum
  | Schedule_generation_failed exn

text \<open>The attribute \<^verbatim>\<open>error_code\<close>, which only a \<^verbatim>\<open>ScheduleGeneratorError\<close> has.\<close>

fun error_code_of :: "exn \<Rightarrow> error_code option" where
  "error_code_of (ScheduleGeneratorError m c) = Some c"
| "error_code_of ZeroDivisionError = None"

section \<open>Request validation\<close>

text \<open>A \<^verbatim>\<open>dict\<close> lookup in an association list.\<close>

type_synonym sections_map = "(string \<times> Section list) list"

text \<open>\<^verbatim>\<open>_validate_request\<close>\<close>

definition missing_courses :: "ScheduleRequest \<Rightarrow> sections_map \<Rightarrow> string list" where
  "missing_courses request available_sections =
     filter (\<lambda>cid. case map_of available_sections cid of
                      None \<Rightarrow> True
                    | Some secs \<Rightarrow> secs = [])
            (course_ids request)"

definition validate_request :: "ScheduleRequest \<Rightarrow> sections_map \<Rightarrow> exn + unit" where
  "validate_request request available_sections =
     (if missing_courses request available_sections \<noteq> [] then
        Inl (ScheduleGeneratorError
               (No_available_sections_for_courses (missing_courses request available_sections))
               NO_SECTIONS_AVAILABLE)
      else case constraints request of
             None \<Rightarrow> Inr ()
           | Some c \<Rightarrow>
               if truthy_real (min_credits c) \<and> truthy_real (max_credits c)
                  \<and> real_or_0 (min_credits c) > real_or_0 (max_credits c)
               then Inl (ScheduleGeneratorError Minimum_credits_greater_than_maximum
                           INVALID_CREDIT_CONSTRAINTS)
               else Inr ())"

section \<open>Section filter\<close>

text \<open>\<^verbatim>\<open>set(meeting.days).intersection(set(constraints.preferred_days))\<close> is non-empty:
  a day of the meeting is one character, a preferred day is a string.\<close>

definition days_intersect_preferred :: "string \<Rightarrow> string list \<Rightarrow> bool" where
  "days_intersect_preferred ds pref = list_ex (\<lambda>c. [c] \<in> set pref) ds"

text \<open>\<^verbatim>\<open>_violates_constraints\<close>: the nested loops return \<^verbatim>\<open>True\<close> at the first violation.\<close>

definition timeslot_violates :: "ScheduleConstraints \<Rightarrow> Meeting \<Rightarrow> Timeslot \<Rightarrow> bool" where
  "timeslot_violates c meeting timeslot =
     ((no_early_morning c \<and> time_less (start_time timeslot) (time_hm 9 0))
      \<or> (no_late_evening c \<and> time_less (time_hm 20 0) (end_time timeslot))
      \<or> (truthy_list (preferred_days c)
          \<and> \<not> days_intersect_preferred (days meeting) (list_or_empty (preferred_days c))))"

definition violates_constraints :: "Section \<Rightarrow> ScheduleConstraints \<Rightarrow> bool" where
  "violates_constraints section c =
     (if \<not> truthy_list (meetings section) then False
      else list_ex (\<lambda>meeting. list_ex (timeslot_violates c meeting) (timeslots meeting))
                   (list_or_empty (meetings section)))"

text \<open>
  \<^verbatim>\<open>_filter_sections\<close>. \<open>section_is_full\<close> is the availability test of its first
  \<^verbatim>\<open>continue\<close>, \<open>section_survives\<close> the condition under which the section is appended.
\<close>

definition section_is_full :: "bool \<Rightarrow> Section \<Rightarrow> bool" where
  "section_is_full include_full section =
     (\<not> include_full \<and> truthy_int (capacity section) \<and> truthy_int (enrolled section)
      \<and> (case (enrolled section, capacity section) of
            (Some e, Some c) \<Rightarrow> e \<ge> c
          | _ \<Rightarrow> False))"

definition section_survives :: "ScheduleConstraints option \<Rightarrow> bool \<Rightarrow> Section \<Rightarrow> bool" where
  "section_survives cs include_full section =
     (if section_is_full include_full section then False
      else case cs of
             None \<Rightarrow> True
           | Some c \<Rightarrow> \<not> violates_constraints section c)"

fun filter_sections :: "sections_map \<Rightarrow> ScheduleConstraints option \<Rightarrow> bool \<Rightarrow> sections_map" where
  "filter_sections [] cs include_full = []"
| "filter_sections ((cid, secs) # rest) cs include_full =
     (let filtered_sections = filter (section_survives cs include_full) secs
      in if filtered_sections \<noteq> []
         then (cid, filtered_sections) # filter_sections rest cs include_full
         else filter_sections rest cs include_full)"

section \<open>Combination generator\<close>

text \<open>
  What the generator takes from outside the request: the clock (\<open>now k\<close> is the \<open>k\<close>-th
  reading of \<^verbatim>\<open>datetime.now()\<close>, in milliseconds), whether the runtime raises
  \<^verbatim>\<open>MemoryError\<close> during the enumeration, and the unseeded random source
  (\<open>random_number i j\<close> is the number drawn for course \<open>j\<close> of sample \<open>i\<close>).
\<close>

record environment =
  now :: "nat \<Rightarrow> nat"
  memory_error :: bool
  random_number :: "nat \<Rightarrow> nat \<Rightarrow> nat"

text \<open>
  \<^verbatim>\<open>itertools.product(*pools)\<close>, as the Python documentation defines it:
  \<^verbatim>\<open>result = [[]]; for pool in pools: result = [x+[y] for x in result for y in pool]\<close>.
\<close>

definition product_step :: "'a list list \<Rightarrow> 'a list \<Rightarrow> 'a list list" where
  "product_step result pool = concat (map (\<lambda>x. map (\<lambda>y. x @ [y]) pool) result)"

definition itertools_product :: "'a list list \<Rightarrow> 'a list list" where
  "itertools_product pools = foldl product_step [[]] pools"

text \<open>\<^verbatim>\<open>random.choice(sections)\<close> with the number \<open>r\<close> drawn for it.\<close>

definition random_choice :: "nat \<Rightarrow> 'a list \<Rightarrow> 'a" where
  "random_choice r xs = xs ! (r mod length xs)"

text \<open>\<^verbatim>\<open>_sample_combinations\<close>; every pool is non-empty where a choice is drawn, since a
  product of lengths above \<open>max_combinations\<close> is not zero.\<close>

definition sample_combinations ::
  "environment \<Rightarrow> Section list list \<Rightarrow> nat \<Rightarrow> Section list list" where
  "sample_combinations env sections_list max_combinations =
     (let total_possible = prod_list (map length sections_list)
      in if total_possible \<le> max_combinations then itertools_product sections_list
         else let sample_size = min max_combinations (total_possible div 10)
              in map (\<lambda>i. map (\<lambda>(j, secs). random_choice (random_number env i j) secs)
                               (enumerate 0 sections_list))
                     [0..<sample_size])"

text \<open>\<^verbatim>\<open>_generate_section_combinations\<close>\<close>

definition generate_section_combinations ::
  "environment \<Rightarrow> sections_map \<Rightarrow> Section list list" where
  "generate_section_combinations env filtered_sections =
     (let sections_list = map snd filtered_sections
      in if sections_list = [] then []
         else if memory_error env then sample_combinations env sections_list 1000
         else itertools_product sections_list)"

section \<open>Conflict detector\<close>

text \<open>\<^verbatim>\<open>_sections_have_time_conflict\<close>\<close>

definition common_days :: "string \<Rightarrow> string \<Rightarrow> bool" where
  "common_days days1 days2 = list_ex (\<lambda>d. d \<in> set days2) days1"

definition meetings_conflict :: "Meeting \<Rightarrow> Meeting \<Rightarrow> bool" where
  "meetings_conflict meeting1 meeting2 =
     (common_days (days meeting1) (days meeting2)
      \<and> list_ex (\<lambda>timeslot1. list_ex (timeslots_overlap timeslot1) (timeslots meeting2))
                 (timeslots meeting1))"

definition sections_have_time_conflict :: "Section \<Rightarrow> Section \<Rightarrow> bool" where
  "sections_have_time_conflict section1 section2 =
     (if \<not> truthy_list (meetings section1) \<or> \<not> truthy_list (meetings section2) then False
      else list_ex (\<lambda>meeting1. list_ex (meetings_conflict meeting1)
                                        (list_or_empty (meetings section2)))
                   (list_or_empty (meetings section1)))"

text \<open>\<^verbatim>\<open>_detect_time_conflicts\<close>\<close>

definition time_conflict :: "Section \<Rightarrow> Section \<Rightarrow> ScheduleConflict" where
  "time_conflict section1 section2 =
     \<lparr>section1_id = section_id section1, section2_id = section_id section2,
      conflict_type = ''time'',
      details = Time_conflict_between (course_id section1) (course_id section2),
      severity = ''error''\<rparr>"

fun detect_time_conflicts :: "Section list \<Rightarrow> ScheduleConflict list" where
  "detect_time_conflicts [] = []"
| "detect_time_conflicts (section1 # rest) =
     map (time_conflict section1) (filter (sections_have_time_conflict section1) rest)
     @ detect_time_conflicts rest"

text \<open>
  Grouping into a dictionary of lists, in insertion order: \<^verbatim>\<open>d[k].append(v)\<close> on a
  \<^verbatim>\<open>defaultdict(list)\<close>, and the \<^verbatim>\<open>if k in d ... else d[k] = [v]\<close> of the exam grouping.
\<close>

fun group_append :: "'k \<Rightarrow> 'v \<Rightarrow> ('k \<times> 'v list) list \<Rightarrow> ('k \<times> 'v list) list" where
  "group_append k v [] = [(k, [v])]"
| "group_append k v ((k', vs) # rest) =
     (if k' = k then (k', vs @ [v]) # rest else (k', vs) # group_append k v rest)"

text \<open>\<^verbatim>\<open>_detect_exam_conflicts\<close>\<close>

definition exam_date :: "Section \<Rightarrow> string option" where
  "exam_date section =
     (case final_exam section of
        None \<Rightarrow> None
      | Some d \<Rightarrow> (if d \<noteq> [] then
                     (case map_of d ''date'' of
                        None \<Rightarrow> None
                      | Some v \<Rightarrow> if v \<noteq> [] then Some v else None)
                   else None))"

definition exam_schedules :: "Section list \<Rightarrow> (string \<times> Section list) list" where
  "exam_schedules secs =
     foldl (\<lambda>d section. case exam_date section of
                           None \<Rightarrow> d
                         | Some dt \<Rightarrow> group_append dt section d) [] secs"

definition exam_conflict :: "string \<Rightarrow> Section \<Rightarrow> Section \<Rightarrow> ScheduleConflict" where
  "exam_conflict dt section1 section2 =
     \<lparr>section1_id = section_id section1, section2_id = section_id section2,
      conflict_type = ''final_exam'',
      details = Final_exam_conflict_on dt,
      severity = ''error''\<rparr>"

fun exam_pairs :: "string \<Rightarrow> Section list \<Rightarrow> ScheduleConflict list" where
  "exam_pairs dt [] = []"
| "exam_pairs dt (section1 # rest) = map (exam_conflict dt section1) rest @ exam_pairs dt rest"

definition detect_exam_conflicts :: "Section list \<Rightarrow> ScheduleConflict list" where
  "detect_exam_conflicts secs =
     concat (map (\<lambda>(dt, exam_sections).
                    if length exam_sections > 1 then exam_pairs dt exam_sections else [])
                 (exam_schedules secs))"

text \<open>\<^verbatim>\<open>_detect_professor_conflicts\<close>\<close>

definition professor_sections :: "Section list \<Rightarrow> (int option \<times> Section list) list" where
  "professor_sections secs =
     foldl (\<lambda>d section.
              if truthy_list (professors section)
              then foldl (\<lambda>d professor. group_append (prof_id professor) section d)
                         d (list_or_empty (professors section))
              else d) [] secs"

definition professor_conflict :: "int option \<Rightarrow> string \<Rightarrow> string \<Rightarrow> ScheduleConflict" where
  "professor_conflict professor_id sid1 sid2 =
     \<lparr>section1_id = sid1, section2_id = sid2,
      conflict_type = ''same_professor'',
      details = Same_professor_ID professor_id,
      severity = ''warning''\<rparr>"

definition group_conflict :: "int option \<times> Section list \<Rightarrow> ScheduleConflict list" where
  "group_conflict g =
     (case g of (professor_id, prof_sections) \<Rightarrow>
        if length prof_sections > 1 then
          (case map section_id prof_sections of
             sid1 # sid2 # _ \<Rightarrow> [professor_conflict professor_id sid1 sid2]
           | _ \<Rightarrow> [])
        else [])"

definition detect_professor_conflicts :: "Section list \<Rightarrow> ScheduleConflict list" where
  "detect_professor_conflicts secs = concat (map group_conflict (professor_sections secs))"

text \<open>\<^verbatim>\<open>_detect_conflicts\<close>\<close>

definition detect_conflicts :: "Section list \<Rightarrow> ScheduleConflict list" where
  "detect_conflicts secs =
     detect_time_conflicts secs @ detect_exam_conflicts secs @ detect_professor_conflicts secs"

section \<open>Quality scorer\<close>

text \<open>\<^verbatim>\<open>sum(section.credits or 0 for section in sections)\<close>\<close>

definition sum_credits :: "Section list \<Rightarrow> real" where
  "sum_credits secs = sum_list (map (\<lambda>section. real_or_0 (credits section)) secs)"

text \<open>All timeslots of all meetings of the sections, in the order of the nested loops.\<close>

definition all_timeslots :: "Section list \<Rightarrow> Timeslot list" where
  "all_timeslots secs =
     concat (map (\<lambda>section. concat (map timeslots (list_or_empty (meetings section)))) secs)"

text \<open>
  \<^verbatim>\<open>_calculate_professor_preference_score\<close>. \<open>professor_loop\<close> is the inner loop over the
  professors of one section, with its two \<^verbatim>\<open>break\<close>s; \<open>section_score\<close> is its accumulator.
\<close>

definition name_in :: "string \<Rightarrow> string list option \<Rightarrow> bool" where
  "name_in n names = (truthy_list names \<and> n \<in> set (list_or_empty names))"

fun professor_loop :: "SchedulePreferences \<Rightarrow> real \<Rightarrow> Professor list \<Rightarrow> real" where
  "professor_loop p section_score [] = section_score"
| "professor_loop p section_score (professor # rest) =
     (if name_in (name professor) (preferred_professors p) then 100
      else if name_in (name professor) (avoided_professors p) then 0
      else if truthy_real (rating professor)
           then professor_loop p (real_or_0 (rating professor) / 5 * 100) rest
           else professor_loop p section_score rest)"

definition calculate_professor_preference_score ::
  "Section list \<Rightarrow> SchedulePreferences \<Rightarrow> real" where
  "calculate_professor_preference_score secs p =
     (if secs = [] then 50
      else let with_professors = filter (\<lambda>section. truthy_list (professors section)) secs;
               total_score = sum_list (map (\<lambda>section.
                                 professor_loop p 50 (list_or_empty (professors section)))
                               with_professors);
               section_count = length with_professors
           in if section_count > 0 then total_score / real section_count else 50)"

text \<open>\<^verbatim>\<open>_calculate_time_preference_score\<close>\<close>

definition timeslot_penalised :: "Timeslot \<Rightarrow> bool" where
  "timeslot_penalised timeslot =
     (time_less (start_time timeslot) (time_hm 8 0)
      \<or> time_less (time_hm 21 0) (end_time timeslot))"

definition calculate_time_preference_score :: "Section list \<Rightarrow> real" where
  "calculate_time_preference_score secs =
     (if secs = [] then 50
      else max 0 (75 - 10 * real (length (filter timeslot_penalised (all_timeslots secs)))))"

text \<open>\<^verbatim>\<open>_calculate_workload_score\<close>\<close>

definition calculate_workload_score :: "Section list \<Rightarrow> real" where
  "calculate_workload_score secs =
     (let total = sum_credits secs
      in if 12 \<le> total \<and> total \<le> 18 then 100
         else if total < 12 then 50
         else max 0 (100 - (total - 18) * 5))"

text \<open>\<^verbatim>\<open>_calculate_rating_score\<close>\<close>

definition calculate_rating_score :: "Section list \<Rightarrow> real" where
  "calculate_rating_score secs =
     (let rated = filter (\<lambda>professor. truthy_real (rating professor))
                    (concat (map (\<lambda>section. list_or_empty (professors section)) secs));
          total_score = sum_list (map (\<lambda>professor. real_or_0 (rating professor) / 5 * 100) rated);
          rating_count = length rated
      in if rating_count > 0 then total_score / real rating_count else 50)"

text \<open>\<^verbatim>\<open>_calculate_preference_score\<close>\<close>

definition calculate_preference_score :: "Section list \<Rightarrow> SchedulePreferences \<Rightarrow> real" where
  "calculate_preference_score secs p =
     (if \<not> validate_weights p then 50
      else calculate_professor_preference_score secs p * professor_weight p
           + calculate_time_preference_score secs * time_preference_weight p
           + calculate_workload_score secs * workload_weight p
           + calculate_rating_score secs * rating_weight p)"

text \<open>\<^verbatim>\<open>d[k] += v\<close> on a \<^verbatim>\<open>defaultdict\<close> whose default is zero.\<close>

fun dict_add :: "'k \<Rightarrow> 'v::{zero,plus} \<Rightarrow> ('k \<times> 'v) list \<Rightarrow> ('k \<times> 'v) list" where
  "dict_add k v [] = [(k, 0 + v)]"
| "dict_add k v ((k', w) # rest) =
     (if k' = k then (k', w + v) # rest else (k', w) # dict_add k v rest)"

text \<open>
  \<^verbatim>\<open>_calculate_workload_balance\<close>. \<open>add_days\<close> is the loop over the days of one meeting,
  \<open>add_meetings\<close> the loop over the meetings of one section, where
  \<^verbatim>\<open>section.credits / len(meeting.days)\<close> raises on an empty string of days, and
  \<open>daily_credits\<close> the loop over the sections. \<open>balance_bonus\<close> is the rest of the
  function on the values of the dictionary; \<^verbatim>\<open>variance ** 0.5\<close> of a variance that is not
  negative is the real square root.
\<close>

fun add_days :: "real \<Rightarrow> string \<Rightarrow> (char \<times> real) list \<Rightarrow> (char \<times> real) list" where
  "add_days days_credit [] d = d"
| "add_days days_credit (day # rest) d = add_days days_credit rest (dict_add day days_credit d)"

fun add_meetings :: "real \<Rightarrow> Meeting list \<Rightarrow> (char \<times> real) list \<Rightarrow> exn + (char \<times> real) list" where
  "add_meetings cr [] d = Inr d"
| "add_meetings cr (meeting # rest) d =
     (if length (days meeting) = 0 then Inl ZeroDivisionError
      else add_meetings cr rest
             (add_days (cr / real (length (days meeting))) (days meeting) d))"

fun daily_credits :: "Section list \<Rightarrow> (char \<times> real) list \<Rightarrow> exn + (char \<times> real) list" where
  "daily_credits [] d = Inr d"
| "daily_credits (section # rest) d =
     (if truthy_list (meetings section) \<and> truthy_real (credits section) then
        (case add_meetings (real_or_0 (credits section)) (list_or_empty (meetings section)) d of
           Inl e \<Rightarrow> Inl e
         | Inr d' \<Rightarrow> daily_credits rest d')
      else daily_credits rest d)"

definition balance_bonus :: "real list \<Rightarrow> real" where
  "balance_bonus credits_list =
     (let avg_credits = sum_list credits_list / real (length credits_list);
          variance = sum_list (map (\<lambda>x. (x - avg_credits) ^ 2) credits_list)
                     / real (length credits_list);
          std_dev = sqrt variance
      in max 0 (10 - std_dev))"

definition calculate_workload_balance :: "Section list \<Rightarrow> exn + real" where
  "calculate_workload_balance secs =
     (if secs = [] then Inr 0
      else case daily_credits secs [] of
             Inl e \<Rightarrow> Inl e
           | Inr d \<Rightarrow> if d = [] then Inr 0 else Inr (balance_bonus (map snd d)))"

text \<open>\<^verbatim>\<open>self.time_preferences\<close> and \<^verbatim>\<open>_get_time_block\<close>\<close>

definition time_preferences :: "(string \<times> time \<times> time) list" where
  "time_preferences =
     [(''early_morning'', time_hm 6 0, time_hm 8 59),
      (''morning'', time_hm 9 0, time_hm 11 59),
      (''midday'', time_hm 12 0, time_hm 14 59),
      (''afternoon'', time_hm 15 0, time_hm 17 59),
      (''evening'', time_hm 18 0, time_hm 21 59),
      (''late_night'', time_hm 22 0, time_hm 23 59)]"

fun first_block :: "(string \<times> time \<times> time) list \<Rightarrow> time \<Rightarrow> string" where
  "first_block [] time_obj = ''other''"
| "first_block ((block_name, start, end) # rest) time_obj =
     (if time_le start time_obj \<and> time_le time_obj end then block_name
      else first_block rest time_obj)"

definition get_time_block :: "time \<Rightarrow> string" where
  "get_time_block time_obj = first_block time_preferences time_obj"

text \<open>\<^verbatim>\<open>_calculate_time_distribution_score\<close>\<close>

definition time_block_counts :: "Section list \<Rightarrow> (string \<times> int) list" where
  "time_block_counts secs =
     foldl (\<lambda>d timeslot. dict_add (get_time_block (start_time timeslot)) 1 d)
           [] (all_timeslots secs)"

definition calculate_time_distribution_score :: "Section list \<Rightarrow> real" where
  "calculate_time_distribution_score secs =
     (if secs = [] then 0
      else real (min (length (time_block_counts secs) * 2) 10))"

text \<open>\<^verbatim>\<open>_calculate_quality_score\<close>\<close>

definition conflict_penalty :: "ScheduleConflict list \<Rightarrow> real" where
  "conflict_penalty confs =
     sum_list (map (\<lambda>conflict. if severity conflict = ''error'' then 25
                                else if severity conflict = ''warning'' then 10
                                else 0) confs)"

definition calculate_quality_score ::
  "Section list \<Rightarrow> ScheduleConflict list \<Rightarrow> SchedulePreferences option \<Rightarrow> exn + real" where
  "calculate_quality_score secs confs prefs =
     (let base_score = 100 - conflict_penalty confs;
          final_score = (case prefs of
                           Some p \<Rightarrow> base_score * (7 / 10)
                                     + calculate_preference_score secs p * (3 / 10)
                         | None \<Rightarrow> base_score)
      in case calculate_workload_balance secs of
           Inl e \<Rightarrow> Inl e
         | Inr balance \<Rightarrow>
             Inr (max 0 (min 100
                   (final_score + balance + calculate_time_distribution_score secs))))"

section \<open>Schedule generation\<close>

text \<open>
  The body of \<^verbatim>\<open>generate_schedules\<close>, phase by phase. \<open>valid_schedules\<close> is the loop
  that keeps a combination when \<^verbatim>\<open>not conflicts or request.constraints is None\<close>.
\<close>

definition valid_schedules ::
  "ScheduleRequest \<Rightarrow> Section list list \<Rightarrow> (Section list \<times> ScheduleConflict list) list" where
  "valid_schedules request all_combinations =
     filter (\<lambda>(combination, confs). confs = [] \<or> constraints request = None)
            (map (\<lambda>combination. (combination, detect_conflicts combination)) all_combinations)"

text \<open>
  The scoring loop; \<open>k\<close> counts the readings of the clock so far. The first combination
  whose scoring raises ends the loop with that exception.
\<close>

fun score_schedules ::
  "environment \<Rightarrow> SchedulePreferences option \<Rightarrow> nat
   \<Rightarrow> (Section list \<times> ScheduleConflict list) list \<Rightarrow> exn + ScheduleOption list" where
  "score_schedules env prefs k [] = Inr []"
| "score_schedules env prefs k ((secs, confs) # rest) =
     (case calculate_quality_score secs confs prefs of
        Inl e \<Rightarrow> Inl e
      | Inr q \<Rightarrow>
          (case score_schedules env prefs (Suc k) rest of
             Inl e \<Rightarrow> Inl e
           | Inr scored \<Rightarrow>
               Inr (\<lparr>sections = secs,
                     total_credits = sum_credits secs,
                     quality_score = q,
                     conflicts = map details confs,
                     generation_time = now env k,
                     course_count = length secs,
                     has_conflicts = (length confs > 0)\<rparr> # scored)))"

text \<open>
  \<^verbatim>\<open>scored_schedules.sort(key=lambda x: x.quality_score, reverse=True)\<close>: Python's sort is
  stable, also with \<^verbatim>\<open>reverse=True\<close>; it is the stable ascending sort on the negated key.
\<close>

definition sort_by_quality :: "ScheduleOption list \<Rightarrow> ScheduleOption list" where
  "sort_by_quality scored = sort_key (\<lambda>x. - quality_score x) scored"

text \<open>The slice \<^verbatim>\<open>xs[:n]\<close>; a negative \<open>n\<close> counts from the end.\<close>

definition slice_to :: "int \<Rightarrow> 'a list \<Rightarrow> 'a list" where
  "slice_to n xs = (if 0 \<le> n then take (nat n) xs else take (length xs - nat (- n)) xs)"

text \<open>The minimum-quality threshold, applied to the slice.\<close>

definition apply_min_quality ::
  "ScheduleConstraints option \<Rightarrow> ScheduleOption list \<Rightarrow> ScheduleOption list" where
  "apply_min_quality cs selected =
     (case cs of
        None \<Rightarrow> selected
      | Some c \<Rightarrow>
          (case min_quality_score c of
             None \<Rightarrow> selected
           | Some min_quality \<Rightarrow> filter (\<lambda>s. quality_score s \<ge> min_quality) selected))"

definition select_schedules :: "ScheduleRequest \<Rightarrow> ScheduleOption list \<Rightarrow> ScheduleOption list" where
  "select_schedules request scored =
     apply_min_quality (constraints request)
       (slice_to (max_options request) (sort_by_quality scored))"

text \<open>The combinations of a request: filter, then enumerate.\<close>

definition all_combinations :: "environment \<Rightarrow> ScheduleRequest \<Rightarrow> sections_map \<Rightarrow> Section list list" where
  "all_combinations env request available_sections =
     generate_section_combinations env
       (filter_sections available_sections (constraints request) (include_full_sections request))"

text \<open>
  \<^verbatim>\<open>generate_schedules\<close>. Its whole body is inside \<^verbatim>\<open>try\<close>, and
  \<^verbatim>\<open>except Exception as e\<close> turns every exception raised there, those of
  \<^verbatim>\<open>_validate_request\<close> too, into a \<^verbatim>\<open>ScheduleGeneratorError\<close> with the code
  \<^verbatim>\<open>GENERATION_FAILED\<close>. The clock is read once at the start, once for each scored
  combination and once at the end.
\<close>

definition generation_failed :: "exn \<Rightarrow> exn" where
  "generation_failed e = ScheduleGeneratorError (Schedule_generation_failed e) GENERATION_FAILED"

definition generate_schedules ::
  "environment \<Rightarrow> ScheduleRequest \<Rightarrow> sections_map \<Rightarrow> exn + GeneratedSchedule" where
  "generate_schedules env request available_sections =
     (case validate_request request available_sections of
        Inl e \<Rightarrow> Inl (generation_failed e)
      | Inr _ \<Rightarrow>
          (let combos = all_combinations env request available_sections;
               valid = valid_schedules request combos
           in case score_schedules env (preferences request) 1 valid of
                Inl e \<Rightarrow> Inl (generation_failed e)
              | Inr scored \<Rightarrow>
                  (let selected = select_schedules request scored
                   in Inr \<lparr>request_id = now env 0 div 1000,
                           gen_season_code = season_code request,
                           options = selected,
                           total_options_generated = length combos,
                           processing_time_ms =
                             int (now env (Suc (length valid))) - int (now env 0),
                           courses_requested = course_ids request,
                           valid_schedules_found = length valid,
                           schedules_with_conflicts =
                             length (filter (\<lambda>s. conflicts s \<noteq> []) selected),
                           average_quality =
                             (if selected \<noteq> []
                              then sum_list (map quality_score selected) / real (length selected)
                              else 0),
                           constraints_applied = (constraints request \<noteq> None),
                           preferences_applied = (preferences request \<noteq> None)\<rparr>)))"

section \<open>Predicates and data of the statements\<close>

text \<open>
  The condition of the specification under which the workload-balance bonus divides by
  zero, in its words: the combination contains a section with nonzero credits that has a
  meeting whose string of days is empty.
\<close>

definition divides_by_zero :: "Section list \<Rightarrow> bool" where
  "divides_by_zero secs =
     list_ex (\<lambda>section. truthy_list (meetings section) \<and> truthy_real (credits section)
                \<and> list_ex (\<lambda>meeting. days meeting = []) (list_or_empty (meetings section)))
             secs"

text \<open>Concrete inputs, at which the theorems below are evaluated.\<close>

definition example_env :: environment where
  "example_env = \<lparr>now = (\<lambda>k. 1000 * k), memory_error = False, random_number = (\<lambda>i j. 0)\<rparr>"

text \<open>A \<^verbatim>\<open>ScheduleConstraints()\<close> with the defaults of its fields.\<close>

definition default_constraints :: ScheduleConstraints where
  "default_constraints =
     \<lparr>min_credits = None, max_credits = None, no_early_morning = False,
      no_late_evening = False, preferred_days = None, min_quality_score = None\<rparr>"

definition request_of :: "string list \<Rightarrow> ScheduleConstraints option \<Rightarrow> ScheduleRequest" where
  "request_of cids cs =
     \<lparr>course_ids = cids, season_code = ''202401'', constraints = cs, preferences = None,
      max_options = 5, include_full_sections = False\<rparr>"

definition section_mwf :: Section where
  "section_mwf =
     \<lparr>section_id = ''s1'', course_id = ''CS101'', capacity = Some 30, enrolled = Some 10,
      meetings = Some [\<lparr>timeslots = [\<lparr>start_time = time_hm 10 0, end_time = time_hm 10 50\<rparr>],
                        days = ''MWF''\<rparr>],
      professors = None, final_exam = None, credits = Some 3\<rparr>"

definition section_no_days :: Section where
  "section_no_days =
     \<lparr>section_id = ''s2'', course_id = ''CS102'', capacity = Some 30, enrolled = Some 10,
      meetings = Some [\<lparr>timeslots = [\<lparr>start_time = time_hm 13 0, end_time = time_hm 13 50\<rparr>],
                        days = []\<rparr>],
      professors = None, final_exam = None, credits = Some 3\<rparr>"

definition five_errors :: "ScheduleConflict list" where
  "five_errors = replicate 5 (time_conflict section_mwf section_mwf)"

definition inverted_credits :: ScheduleConstraints where
  "inverted_credits = default_constraints\<lparr>min_credits := Some 18, max_credits := Some 12\<rparr>"


definition section_full :: Section where
  "section_full = section_mwf\<lparr>capacity := Some 30, enrolled := Some 30\<rparr>"

definition section_tth :: Section where
  "section_tth =
     \<lparr>section_id = ''s3'', course_id = ''CS102'', capacity = Some 30, enrolled = Some 10,
      meetings = Some [\<lparr>timeslots = [\<lparr>start_time = time_hm 13 0, end_time = time_hm 14 15\<rparr>],
                        days = ''TH''\<rparr>],
      professors = None, final_exam = None, credits = Some 3\<rparr>"

definition professor_7 :: Professor where
  "professor_7 = \<lparr>prof_id = Some 7, name = ''Ada'', rating = None\<rparr>"

definition section_a :: Section where
  "section_a =
     \<lparr>section_id = ''a'', course_id = ''CS101'', capacity = None, enrolled = None,
      meetings = None, professors = Some [professor_7], final_exam = None, credits = None\<rparr>"

definition section_b :: Section where
  "section_b =
     \<lparr>section_id = ''b'', course_id = ''CS102'', capacity = None, enrolled = None,
      meetings = None, professors = Some [professor_7], final_exam = None, credits = None\<rparr>"

text \<open>An option without its time stamp: what two runs of the generation can share.\<close>

definition forget_time :: "ScheduleOption \<Rightarrow> ScheduleOption" where
  "forget_time opt = opt\<lparr>generation_time := 0\<rparr>"

definition other_env :: environment where
  "other_env = \<lparr>now = (\<lambda>k. 7 * k + 3), memory_error = False, random_number = (\<lambda>i j. i + j)\<rparr>"

definition section_pp :: Section where
  "section_pp = section_a\<lparr>section_id := ''pp'', professors := Some [professor_7, professor_7]\<rparr>"

definition request_top2 :: ScheduleRequest where
  "request_top2 = (request_of [''CS101''] None)\<lparr>max_options := 2\<rparr>"

text \<open>
  The result of \<open>request_top2\<close> on the sections \<open>section_pp\<close>, \<open>section_a\<close>, \<open>section_b\<close> of
  one course, with the readings of the clock as parameters.
\<close>

definition top2_result :: "nat \<Rightarrow> nat \<Rightarrow> nat \<Rightarrow> int \<Rightarrow> GeneratedSchedule" where
  "top2_result rid t1 t2 ms =
     \<lparr>request_id = rid, gen_season_code = ''202401'',
      options =
        [\<lparr>sections = [section_a], total_credits = 0, quality_score = 100, conflicts = [],
           generation_time = t1, course_count = 1, has_conflicts = False\<rparr>,
         \<lparr>sections = [section_b], total_credits = 0, quality_score = 100, conflicts = [],
           generation_time = t2, course_count = 1, has_conflicts = False\<rparr>],
      total_options_generated = 3, processing_time_ms = ms, courses_requested = [''CS101''],
      valid_schedules_found = 3, schedules_with_conflicts = 0, average_quality = 100,
      constraints_applied = False, preferences_applied = False\<rparr>"

text \<open>
  The sections grouped under the professor id \<open>k\<close>: each section once for every professor
  of it whose id is \<open>k\<close>, in the order of the combination. \<open>anonymous_professors\<close>
  holds of a section that has professors, all of them with the id absent. \<open>events\<close> and
  \<open>group_all\<close> flatten the two nested loops of the grouping into one.
\<close>

definition group_of :: "int option \<Rightarrow> Section list \<Rightarrow> Section list" where
  "group_of k secs =
     concat (map (\<lambda>section. map (\<lambda>p. section)
                    (filter (\<lambda>p. prof_id p = k) (list_or_empty (professors section)))) secs)"

definition anonymous_professors :: "Section \<Rightarrow> bool" where
  "anonymous_professors section =
     (truthy_list (professors section)
      \<and> list_all (\<lambda>p. prof_id p = None) (list_or_empty (professors section)))"

definition events :: "Section list \<Rightarrow> (int option \<times> Section) list" where
  "events secs =
     concat (map (\<lambda>section. map (\<lambda>p. (prof_id p, section)) (list_or_empty (professors section))) secs)"

definition group_all :: "('k \<times> 'v list) list \<Rightarrow> ('k \<times> 'v) list \<Rightarrow> ('k \<times> 'v list) list" where
  "group_all d es = foldl (\<lambda>d e. group_append (fst e) (snd e) d) d es"

definition professor_named :: "string \<Rightarrow> Professor" where
  "professor_named n = \<lparr>prof_id = None, name = n, rating = None\<rparr>"

definition section_x :: Section where
  "section_x = section_a\<lparr>section_id := ''x'', professors := Some [professor_named ''Ada'']\<rparr>"

definition section_y :: Section where
  "section_y = section_a\<lparr>section_id := ''y'', professors := Some [professor_named ''Bob'']\<rparr>"

definition section_z :: Section where
  "section_z = section_a\<lparr>section_id := ''z'', professors := Some [professor_named ''Cy'']\<rparr>"


section \<open>Properties of the time primitives\<close>

lemma time_less_irrefl: "\<not> time_less a a"
  by (cases a) simp

text \<open>
  Claim C6. The overlap test is symmetric in its two timeslots; it holds exactly when
  \<open>a.start < b.end\<close> and \<open>b.start < a.end\<close>; and it is false whenever \<open>a.end = b.start\<close>,
  so that timeslots that only touch do not overlap.
\<close>

theorem timeslots_overlap_symmetric_half_open:
  "timeslots_overlap a b = timeslots_overlap b a
   \<and> timeslots_overlap a b
       = (time_less (start_time a) (end_time b) \<and> time_less (start_time b) (end_time a))
   \<and> (end_time a = start_time b \<longrightarrow> \<not> timeslots_overlap a b)"
  by (auto simp: timeslots_overlap_def time_less_irrefl)

theorem timeslots_overlap_symmetric_half_open_witness:
  "timeslots_overlap \<lparr>start_time = time_hm 10 0, end_time = time_hm 10 50\<rparr>
                     \<lparr>start_time = time_hm 10 50, end_time = time_hm 11 40\<rparr>
     = timeslots_overlap \<lparr>start_time = time_hm 10 50, end_time = time_hm 11 40\<rparr>
                         \<lparr>start_time = time_hm 10 0, end_time = time_hm 10 50\<rparr>
   \<and> \<not> timeslots_overlap \<lparr>start_time = time_hm 10 0, end_time = time_hm 10 50\<rparr>
                         \<lparr>start_time = time_hm 10 50, end_time = time_hm 11 40\<rparr>"
  using timeslots_overlap_symmetric_half_open
    [of "\<lparr>start_time = time_hm 10 0, end_time = time_hm 10 50\<rparr>"
        "\<lparr>start_time = time_hm 10 50, end_time = time_hm 11 40\<rparr>"]
  by (simp add: timeslots_overlap_def time_hm_def)

section \<open>Shared lemmas\<close>

subsection \<open>The section filter and the enumeration\<close>


lemma append_snoc_fun: "(@) (a @ [x]) = (\<lambda>b. a @ x # b)"
  by (simp add: fun_eq_iff)

lemma append_Nil_fun: "(@) [] = (\<lambda>b. b)"
  by (simp add: fun_eq_iff)

lemma product_step_fold:
  "foldl product_step acc pools = concat (map (\<lambda>a. map (\<lambda>b. a @ b) (product_lists pools)) acc)"
proof (induction pools arbitrary: acc)
  case Nil
  then show ?case by (induction acc) simp_all
next
  case (Cons p ps)
  show ?case
    unfolding foldl_Cons Cons.IH
    by (induction acc) (simp_all add: product_step_def comp_def map_concat append_snoc_fun)
qed

lemma itertools_product_eq: "itertools_product pools = product_lists pools"
  unfolding itertools_product_def product_step_fold by (simp add: append_Nil_fun)

subsection \<open>When the scorer raises\<close>

lemma add_meetings_cases:
  "(list_ex (\<lambda>m. days m = []) ms \<longrightarrow> add_meetings cr ms d = Inl ZeroDivisionError)
   \<and> (\<not> list_ex (\<lambda>m. days m = []) ms \<longrightarrow> (\<exists>d'. add_meetings cr ms d = Inr d'))"
  by (induction ms arbitrary: d) auto

lemma daily_credits_cases:
  "(divides_by_zero secs \<longrightarrow> daily_credits secs d = Inl ZeroDivisionError)
   \<and> (\<not> divides_by_zero secs \<longrightarrow> (\<exists>d'. daily_credits secs d = Inr d'))"
proof (induction secs arbitrary: d)
  case Nil
  then show ?case by (simp add: divides_by_zero_def)
next
  case (Cons s ss)
  show ?case
    using Cons.IH add_meetings_cases[of "list_or_empty (meetings s)" "real_or_0 (credits s)" d]
    by (auto simp: divides_by_zero_def split: sum.splits)
qed

lemma balance_bonus_range: "0 \<le> balance_bonus xs \<and> balance_bonus xs \<le> 10"
proof -
  have "0 \<le> sum_list (map (\<lambda>x. (x - a) ^ 2) xs)" for a :: real
    by (induction xs) simp_all
  then show ?thesis
    by (simp add: balance_bonus_def Let_def)
qed

lemma workload_balance_cases:
  "(divides_by_zero secs \<longrightarrow> calculate_workload_balance secs = Inl ZeroDivisionError)
   \<and> (\<not> divides_by_zero secs \<longrightarrow>
        (\<exists>b. calculate_workload_balance secs = Inr b \<and> 0 \<le> b \<and> b \<le> 10))"
  using daily_credits_cases[of secs "[]"] balance_bonus_range
  by (auto simp: calculate_workload_balance_def divides_by_zero_def split: sum.splits)

lemma quality_cases:
  "(divides_by_zero secs \<longrightarrow> calculate_quality_score secs confs prefs = Inl ZeroDivisionError)
   \<and> (\<not> divides_by_zero secs \<longrightarrow>
        (\<exists>q. calculate_quality_score secs confs prefs = Inr q \<and> 0 \<le> q \<and> q \<le> 100))"
  using workload_balance_cases[of secs]
  by (auto simp: calculate_quality_score_def Let_def)


subsection \<open>Evaluations at the example inputs\<close>

lemma section_mwf_no_division: "\<not> divides_by_zero [section_mwf]"
  by (simp add: divides_by_zero_def section_mwf_def truthy_list_def truthy_real_def
      list_or_empty_def)

lemma section_no_days_division: "divides_by_zero [section_no_days]"
  by (simp add: divides_by_zero_def section_no_days_def truthy_list_def truthy_real_def
      list_or_empty_def)

lemma section_mwf_balance: "calculate_workload_balance [section_mwf] = Inr 10"
  by (simp add: calculate_workload_balance_def section_mwf_def truthy_list_def truthy_real_def
      list_or_empty_def real_or_0_def balance_bonus_def Let_def)

lemma section_mwf_distribution: "calculate_time_distribution_score [section_mwf] = 2"
  by (simp add: calculate_time_distribution_score_def time_block_counts_def all_timeslots_def
      section_mwf_def list_or_empty_def get_time_block_def time_preferences_def time_hm_def
      time_le_def)

lemma section_mwf_score: "calculate_quality_score [section_mwf] [] None = Inr 100"
  by (simp add: calculate_quality_score_def section_mwf_balance section_mwf_distribution
      conflict_penalty_def)

lemma section_mwf_score_five_errors:
  "calculate_quality_score [section_mwf] five_errors None = Inr 0"
  by (simp add: calculate_quality_score_def section_mwf_balance section_mwf_distribution
      conflict_penalty_def five_errors_def time_conflict_def numeral_eq_Suc)





section \<open>The quality scorer\<close>

text \<open>
  Claim C4. For every combination, every list of conflicts and every preferences object,
  absent or with invalid weights too, the scorer either raises \<^verbatim>\<open>ZeroDivisionError\<close>
  (exactly when a section with nonzero credits has a meeting with no days) or returns a
  score \<open>q\<close> with \<open>0 \<le> q \<le> 100\<close>, whatever the penalties and bonuses add up to.
\<close>

theorem quality_score_between_0_and_100:
  "(divides_by_zero secs \<longrightarrow> calculate_quality_score secs confs prefs = Inl ZeroDivisionError)
   \<and> (\<not> divides_by_zero secs \<longrightarrow>
        (\<exists>q. calculate_quality_score secs confs prefs = Inr q \<and> 0 \<le> q \<and> q \<le> 100))
   \<and> (\<forall>q. calculate_quality_score secs confs prefs = Inr q \<longrightarrow> 0 \<le> q \<and> q \<le> 100)"
  using quality_cases[of secs confs prefs] by auto

theorem quality_score_between_0_and_100_witness:
  "\<not> divides_by_zero [section_mwf]
   \<and> calculate_quality_score [section_mwf] [] None = Inr 100
   \<and> calculate_quality_score [section_mwf] five_errors None = Inr 0
   \<and> divides_by_zero [section_no_days]
   \<and> calculate_quality_score [section_no_days] [] None = Inl ZeroDivisionError"
  using quality_score_between_0_and_100[of "[section_mwf]" "[]" None]
        quality_score_between_0_and_100[of "[section_mwf]" five_errors None]
        quality_score_between_0_and_100[of "[section_no_days]" "[]" None]
  by (simp add: section_mwf_no_division section_no_days_division section_mwf_score
      section_mwf_score_five_errors)



section \<open>Request validation and the error kinds\<close>

text \<open>
  Claim C1, evaluated at the request of Scenario C (\<open>min_credits = 18\<close>, \<open>max_credits = 12\<close>,
  one course with one available section). \<^verbatim>\<open>_validate_request\<close> raises the error with
  the code \<^verbatim>\<open>INVALID_CREDIT_CONSTRAINTS\<close>, before any filtering, but the
  \<^verbatim>\<open>except Exception\<close> of \<^verbatim>\<open>generate_schedules\<close> catches it and raises a new error with the
  code \<^verbatim>\<open>GENERATION_FAILED\<close>: the caller never sees \<^verbatim>\<open>INVALID_CREDIT_CONSTRAINTS\<close>.
\<close>

theorem inverted_credit_bounds_reported_as_generation_failed:
  "validate_request (request_of [''CS101''] (Some inverted_credits)) [(''CS101'', [section_mwf])]
     = Inl (ScheduleGeneratorError Minimum_credits_greater_than_maximum INVALID_CREDIT_CONSTRAINTS)
   \<and> generate_schedules example_env (request_of [''CS101''] (Some inverted_credits))
         [(''CS101'', [section_mwf])]
     = Inl (ScheduleGeneratorError
             (Schedule_generation_failed
               (ScheduleGeneratorError Minimum_credits_greater_than_maximum
                  INVALID_CREDIT_CONSTRAINTS))
             GENERATION_FAILED)"
  by (simp add: generate_schedules_def validate_request_def missing_courses_def request_of_def
      inverted_credits_def default_constraints_def truthy_real_def real_or_0_def
      generation_failed_def)

section \<open>Which combinations are kept\<close>

lemma sections_a_b_conflicts:
  "detect_conflicts [section_a, section_b] = [professor_conflict (Some 7) ''a'' ''b'']"
  by (simp add: detect_conflicts_def detect_exam_conflicts_def exam_schedules_def exam_date_def
      detect_professor_conflicts_def professor_sections_def section_a_def section_b_def
      truthy_list_def list_or_empty_def sections_have_time_conflict_def professor_7_def
      group_conflict_def)

text \<open>
  Claim C3 as stated fails: with a constraints object supplied, a combination whose only
  conflict is a \<^verbatim>\<open>same_professor\<close> warning is not kept.
\<close>

theorem warning_only_combination_dropped_with_constraints:
  "map severity (detect_conflicts [section_a, section_b]) = [''warning'']
   \<and> valid_schedules (request_of [''CS101'', ''CS102''] (Some default_constraints))
        [[section_a, section_b]] = []"
  by (simp add: sections_a_b_conflicts valid_schedules_def request_of_def professor_conflict_def)

text \<open>
  Claim C3, amended. A combination is kept in the pool of scored candidates exactly when
  its list of conflicts is empty or the request has no constraints object; so a combination
  with conflicts of any severity, warnings only too, is kept exactly when no constraints
  object was supplied. The kept combinations stay in generation order.
\<close>

theorem valid_schedules_keeps_iff:
  "((combination, confs) \<in> set (valid_schedules request combos)
      \<longleftrightarrow> combination \<in> set combos \<and> confs = detect_conflicts combination
          \<and> (confs = [] \<or> constraints request = None))
   \<and> map fst (valid_schedules request combos)
       = filter (\<lambda>c. detect_conflicts c = [] \<or> constraints request = None) combos"
proof
  show "(combination, confs) \<in> set (valid_schedules request combos)
      \<longleftrightarrow> combination \<in> set combos \<and> confs = detect_conflicts combination
          \<and> (confs = [] \<or> constraints request = None)"
    by (auto simp: valid_schedules_def)
  show "map fst (valid_schedules request combos)
       = filter (\<lambda>c. detect_conflicts c = [] \<or> constraints request = None) combos"
    by (induction combos) (simp_all add: valid_schedules_def)
qed

theorem valid_schedules_keeps_iff_witness:
  "([section_a, section_b], [professor_conflict (Some 7) ''a'' ''b''])
      \<in> set (valid_schedules (request_of [''CS101'', ''CS102''] None) [[section_a, section_b]])
   \<and> ([section_a, section_b], [professor_conflict (Some 7) ''a'' ''b''])
      \<notin> set (valid_schedules (request_of [''CS101'', ''CS102''] (Some default_constraints))
                [[section_a, section_b]])"
  using valid_schedules_keeps_iff
          [of "[section_a, section_b]" "[professor_conflict (Some 7) ''a'' ''b'']"
              "request_of [''CS101'', ''CS102''] None" "[[section_a, section_b]]"]
        valid_schedules_keeps_iff
          [of "[section_a, section_b]" "[professor_conflict (Some 7) ''a'' ''b'']"
              "request_of [''CS101'', ''CS102''] (Some default_constraints)"
              "[[section_a, section_b]]"]
  by (simp add: sections_a_b_conflicts request_of_def)

section \<open>The section filter\<close>




section \<open>Ranking and selection\<close>

lemmas example_defs = generate_schedules_def validate_request_def missing_courses_def
  request_of_def all_combinations_def generate_section_combinations_def example_env_def
  section_survives_def section_is_full_def truthy_int_def truthy_list_def truthy_real_def
  list_or_empty_def real_or_0_def itertools_product_def product_step_def valid_schedules_def
  detect_conflicts_def detect_exam_conflicts_def exam_schedules_def exam_date_def
  detect_professor_conflicts_def professor_sections_def group_conflict_def professor_conflict_def
  sections_have_time_conflict_def calculate_quality_score_def calculate_workload_balance_def
  calculate_time_distribution_score_def time_block_counts_def all_timeslots_def
  conflict_penalty_def sum_credits_def select_schedules_def slice_to_def sort_by_quality_def
  apply_min_quality_def balance_bonus_def get_time_block_def time_preferences_def time_hm_def
  time_le_def Let_def










lemma top2_generate:
  "generate_schedules example_env request_top2 [(''CS101'', [section_pp, section_a, section_b])]
     = Inr (top2_result 0 2000 3000 4000)"
  by (simp add: example_defs request_top2_def section_pp_def section_a_def section_b_def
      professor_7_def top2_result_def)

lemma top2_generate_other:
  "generate_schedules other_env request_top2 [(''CS101'', [section_pp, section_a, section_b])]
     = Inr (top2_result 0 17 24 28)"
  by (simp add: example_defs other_env_def request_top2_def section_pp_def section_a_def
      section_b_def professor_7_def top2_result_def)



section \<open>Determinism of the exact enumeration\<close>

lemma insort_key_map:
  "insort_key f (g x) (map g xs) = map g (insort_key (\<lambda>y. f (g y)) x xs)"
  by (induction xs) simp_all

lemma sort_key_map: "sort_key f (map g xs) = map g (sort_key (\<lambda>y. f (g y)) xs)"
  by (induction xs) (simp_all add: insort_key_map)

lemma quality_score_forget_time: "quality_score (forget_time x) = quality_score x"
  by (simp add: forget_time_def)

lemma sort_by_quality_forget:
  "sort_by_quality (map forget_time xs) = map forget_time (sort_by_quality xs)"
  by (simp add: sort_by_quality_def sort_key_map quality_score_forget_time)

lemma slice_to_map: "slice_to n (map f xs) = map f (slice_to n xs)"
  by (simp add: slice_to_def take_map)

lemma apply_min_quality_forget:
  "apply_min_quality cs (map forget_time xs) = map forget_time (apply_min_quality cs xs)"
  by (simp add: apply_min_quality_def filter_map comp_def quality_score_forget_time
      split: option.splits)

lemma select_schedules_forget:
  "select_schedules request (map forget_time xs) = map forget_time (select_schedules request xs)"
  by (simp add: select_schedules_def sort_by_quality_forget slice_to_map apply_min_quality_forget)

lemma score_schedules_forget:
  "map_sum id (map forget_time) (score_schedules env prefs k valid)
     = map_sum id (map forget_time) (score_schedules env' prefs k' valid)"
proof (induction valid arbitrary: k k')
  case Nil
  then show ?case by simp
next
  case (Cons v valid)
  obtain secs confs where v: "v = (secs, confs)" by (cases v)
  show ?case
    using Cons.IH[of "Suc k" "Suc k'"]
    by (cases "score_schedules env prefs (Suc k) valid";
        cases "score_schedules env' prefs (Suc k') valid")
       (auto simp: v forget_time_def split: sum.splits)
qed

lemma all_combinations_exact:
  "\<not> memory_error env \<Longrightarrow>
   all_combinations env request avail
     = (let filtered = filter_sections avail (constraints request) (include_full_sections request)
        in if filtered = [] then [] else product_lists (map snd filtered))"
  by (simp add: all_combinations_def generate_section_combinations_def itertools_product_eq Let_def)

text \<open>
  Claim C8. Take two runs on the same request and the same available sections, in
  environments that may differ in the clock and in the random source, and in neither of
  which the sampling fallback is triggered. The combinations are the same list, namely the
  nested iteration \<open>product_lists\<close> over the filtered courses in their order, with the
  sections of each course in their order; the two runs fail with the same error or both
  succeed; and when they succeed their options are the same, in the same order and with
  the same scores, up to the time stamp of each option.
\<close>

theorem exact_enumeration_deterministic:
  assumes "\<not> memory_error env1" and "\<not> memory_error env2"
  shows "all_combinations env1 request avail
           = (let filtered = filter_sections avail (constraints request)
                               (include_full_sections request)
              in if filtered = [] then [] else product_lists (map snd filtered))
    \<and> all_combinations env1 request avail = all_combinations env2 request avail
    \<and> (\<forall>e. generate_schedules env1 request avail = Inl e
            \<longleftrightarrow> generate_schedules env2 request avail = Inl e)
    \<and> (\<forall>g1 g2. generate_schedules env1 request avail = Inr g1
            \<and> generate_schedules env2 request avail = Inr g2
            \<longrightarrow> map forget_time (options g1) = map forget_time (options g2))"
proof -
  have combos: "all_combinations env1 request avail = all_combinations env2 request avail"
    using assms by (simp add: all_combinations_exact)
  let ?valid = "valid_schedules request (all_combinations env2 request avail)"
  have sc: "map_sum id (map forget_time) (score_schedules env1 (preferences request) 1 ?valid)
     = map_sum id (map forget_time) (score_schedules env2 (preferences request) 1 ?valid)"
    by (rule score_schedules_forget)
  have rest: "(\<forall>e. generate_schedules env1 request avail = Inl e
            \<longleftrightarrow> generate_schedules env2 request avail = Inl e)
    \<and> (\<forall>g1 g2. generate_schedules env1 request avail = Inr g1
            \<and> generate_schedules env2 request avail = Inr g2
            \<longrightarrow> map forget_time (options g1) = map forget_time (options g2))"
  proof (cases "validate_request request avail")
    case (Inl e)
    then show ?thesis by (simp add: generate_schedules_def)
  next
    case (Inr u)
    show ?thesis
    proof (cases "score_schedules env1 (preferences request) 1 ?valid")
      case (Inl e1)
      with sc obtain e2 where
        "score_schedules env2 (preferences request) 1 ?valid = Inl e2" "e1 = e2"
        by (cases "score_schedules env2 (preferences request) 1 ?valid") auto
      with Inl Inr combos show ?thesis
        by (simp add: generate_schedules_def Let_def)
    next
      case (Inr s1)
      with sc obtain s2 where
        s2: "score_schedules env2 (preferences request) 1 ?valid = Inr s2"
            "map forget_time s1 = map forget_time s2"
        by (cases "score_schedules env2 (preferences request) 1 ?valid") auto
      have "map forget_time (select_schedules request s1)
              = map forget_time (select_schedules request s2)"
        using s2(2) by (simp flip: select_schedules_forget)
      with Inr s2(1) \<open>validate_request request avail = Inr u\<close> combos show ?thesis
        by (simp add: generate_schedules_def Let_def)
    qed
  qed
  show ?thesis
    using combos rest all_combinations_exact[OF assms(1), of request avail] by blast
qed

theorem exact_enumeration_deterministic_witness:
  "\<not> memory_error example_env \<and> \<not> memory_error other_env
   \<and> generate_schedules example_env request_top2
         [(''CS101'', [section_pp, section_a, section_b])]
       = Inr (top2_result 0 2000 3000 4000)
   \<and> generate_schedules other_env request_top2
         [(''CS101'', [section_pp, section_a, section_b])]
       = Inr (top2_result 0 17 24 28)
   \<and> map forget_time (options (top2_result 0 2000 3000 4000))
       = map forget_time (options (top2_result 0 17 24 28))"
proof -
  have m1: "\<not> memory_error example_env" by (simp add: example_env_def)
  have m2: "\<not> memory_error other_env" by (simp add: other_env_def)
  from exact_enumeration_deterministic
         [OF m1 m2, of request_top2 "[(''CS101'', [section_pp, section_a, section_b])]"]
  have "map forget_time (options (top2_result 0 2000 3000 4000))
       = map forget_time (options (top2_result 0 17 24 28))"
    using top2_generate top2_generate_other by blast
  then show ?thesis
    using m1 m2 top2_generate top2_generate_other by blast
qed

section \<open>Same-professor warnings\<close>

lemma inner_loop_events:
  "foldl (\<lambda>d professor. group_append (prof_id professor) section d) d ps
     = group_all d (map (\<lambda>p. (prof_id p, section)) ps)"
  by (induction ps arbitrary: d) (simp_all add: group_all_def)

lemma group_all_append: "group_all d (es @ fs) = group_all (group_all d es) fs"
  by (simp add: group_all_def)

lemma outer_loop_events:
  "foldl (\<lambda>d section.
              if truthy_list (professors section)
              then foldl (\<lambda>d professor. group_append (prof_id professor) section d)
                         d (list_or_empty (professors section))
              else d) d secs
     = group_all d (events secs)"
proof (induction secs arbitrary: d)
  case Nil
  then show ?case by (simp add: events_def group_all_def)
next
  case (Cons s secs)
  have ev: "events (s # secs) = map (\<lambda>p. (prof_id p, s)) (list_or_empty (professors s)) @ events secs"
    by (simp add: events_def)
  show ?case
  proof (cases "truthy_list (professors s)")
    case True
    then show ?thesis
      by (simp add: Cons.IH ev group_all_append inner_loop_events)
  next
    case False
    then have "list_or_empty (professors s) = []"
      by (auto simp: truthy_list_def list_or_empty_def split: option.splits)
    with False show ?thesis
      by (simp add: Cons.IH ev group_all_def)
  qed
qed

lemma professor_sections_events: "professor_sections secs = group_all [] (events secs)"
  by (simp add: professor_sections_def outer_loop_events)

lemma map_of_group_append:
  "map_of (group_append k v d) k'
     = (if k' = k then Some (case map_of d k of None \<Rightarrow> [v] | Some vs \<Rightarrow> vs @ [v])
        else map_of d k')"
  by (induction k v d rule: group_append.induct) auto

lemma keys_group_append:
  "map fst (group_append k v d) = (if k \<in> set (map fst d) then map fst d else map fst d @ [k])"
  by (induction k v d rule: group_append.induct) auto

lemma distinct_group_append:
  "distinct (map fst d) \<Longrightarrow> distinct (map fst (group_append k v d))"
  by (simp add: keys_group_append)

lemma distinct_group_all: "distinct (map fst d) \<Longrightarrow> distinct (map fst (group_all d es))"
  by (induction es arbitrary: d) (simp_all add: group_all_def distinct_group_append)

lemma map_of_group_all:
  "map_of (group_all d es) k
     = (let new = map snd (filter (\<lambda>e. fst e = k) es)
        in case map_of d k of
             None \<Rightarrow> if new = [] then None else Some new
           | Some vs \<Rightarrow> Some (vs @ new))"
proof (induction es arbitrary: d)
  case Nil
  then show ?case by (simp add: group_all_def split: option.splits)
next
  case (Cons e es)
  have "group_all d (e # es) = group_all (group_append (fst e) (snd e) d) es"
    by (simp add: group_all_def)
  then show ?case
    by (simp add: Cons.IH map_of_group_append Let_def split: option.splits)
qed

lemma events_group_of: "map snd (filter (\<lambda>e. fst e = k) (events secs)) = group_of k secs"
  by (induction secs) (simp_all add: events_def group_of_def filter_map comp_def)

lemma professor_sections_lookup:
  "map_of (professor_sections secs) k
     = (if group_of k secs = [] then None else Some (group_of k secs))"
  by (simp add: professor_sections_events map_of_group_all events_group_of Let_def)

lemma professor_sections_distinct: "distinct (map fst (professor_sections secs))"
  by (simp add: professor_sections_events distinct_group_all)

lemma professor_sections_member:
  "(k, g) \<in> set (professor_sections secs) \<longleftrightarrow> g = group_of k secs \<and> g \<noteq> []"
  using map_of_eq_Some_iff[OF professor_sections_distinct, of secs k g]
  by (auto simp: professor_sections_lookup split: if_splits)

lemma group_conflict_eq:
  "group_conflict (k, g)
     = (if length g > 1 then [professor_conflict k (section_id (g ! 0)) (section_id (g ! 1))]
        else [])"
proof (cases g)
  case Nil
  then show ?thesis by (simp add: group_conflict_def)
next
  case (Cons a g')
  then show ?thesis by (cases g') (simp_all add: group_conflict_def)
qed

lemma detect_professor_conflicts_eq:
  "detect_professor_conflicts secs
     = map (\<lambda>(k, g). professor_conflict k (section_id (g ! 0)) (section_id (g ! 1)))
           (filter (\<lambda>(k, g). length g > 1) (professor_sections secs))"
proof -
  have "concat (map group_conflict xs)
     = map (\<lambda>(k, g). professor_conflict k (section_id (g ! 0)) (section_id (g ! 1)))
           (filter (\<lambda>(k, g). length g > 1) xs)" for xs
    by (induction xs) (auto simp: group_conflict_eq)
  then show ?thesis by (simp add: detect_professor_conflicts_def)
qed

lemma set_group_of:
  "set (group_of k secs)
     = {s \<in> set secs. \<exists>p \<in> set (list_or_empty (professors s)). prof_id p = k}"
  by (auto simp: group_of_def)

lemma anonymous_in_group:
  assumes "s \<in> set secs" and "anonymous_professors s"
  shows "s \<in> set (group_of None secs)"
proof -
  from assms(2) obtain p ps where "list_or_empty (professors s) = p # ps"
    by (cases "list_or_empty (professors s)")
       (auto simp: anonymous_professors_def truthy_list_def list_or_empty_def split: option.splits)
  moreover from this assms(2) have "prof_id p = None"
    by (simp add: anonymous_professors_def)
  ultimately show ?thesis
    using assms(1) by (auto simp: set_group_of)
qed

lemma anonymous_group_length:
  "length (filter anonymous_professors secs) \<le> length (group_of None secs)"
proof (induction secs)
  case Nil
  then show ?case by (simp add: group_of_def)
next
  case (Cons s secs)
  have split: "group_of None (s # secs)
     = map (\<lambda>p. s) (filter (\<lambda>p. prof_id p = None) (list_or_empty (professors s)))
       @ group_of None secs"
    by (simp add: group_of_def)
  show ?case
  proof (cases "anonymous_professors s")
    case True
    then have "filter (\<lambda>p. prof_id p = None) (list_or_empty (professors s))
                 = list_or_empty (professors s)"
      and "list_or_empty (professors s) \<noteq> []"
      by (auto simp: anonymous_professors_def list_all_iff truthy_list_def list_or_empty_def
          split: option.splits)
    then have "1 \<le> length (filter (\<lambda>p. prof_id p = None) (list_or_empty (professors s)))"
      by (simp add: Suc_leI)
    with True Cons.IH show ?thesis by (simp add: split)
  next
    case False
    with Cons.IH show ?thesis by (simp add: split)
  qed
qed

text \<open>
  Claim C10. The detector groups by the optional id of the professor: the group of a key
  \<open>k\<close>, \<open>None\<close> too, holds every section once per professor of it with that id, and
  each group of more than one entry yields one warning that names the first two entries
  only, whatever the size of the group. So in a combination with two or more sections
  whose professors all have no id, these sections are in the group of \<open>None\<close> and a
  \<^verbatim>\<open>same_professor\<close> warning for the key \<open>None\<close> is emitted, whoever the professors are.
\<close>

theorem same_professor_groups_by_optional_id:
  "((k, g) \<in> set (professor_sections secs) \<longleftrightarrow> g = group_of k secs \<and> g \<noteq> [])
   \<and> detect_professor_conflicts secs
       = map (\<lambda>(k, g). professor_conflict k (section_id (g ! 0)) (section_id (g ! 1)))
             (filter (\<lambda>(k, g). length g > 1) (professor_sections secs))
   \<and> (2 \<le> length (filter anonymous_professors secs) \<longrightarrow>
        (\<forall>s \<in> set secs. anonymous_professors s \<longrightarrow> s \<in> set (group_of None secs))
        \<and> \<lparr>section1_id = section_id (group_of None secs ! 0),
            section2_id = section_id (group_of None secs ! 1),
            conflict_type = ''same_professor'',
            details = Same_professor_ID None,
            severity = ''warning''\<rparr> \<in> set (detect_professor_conflicts secs))"
proof (intro conjI impI)
  show "(k, g) \<in> set (professor_sections secs) \<longleftrightarrow> g = group_of k secs \<and> g \<noteq> []"
    by (rule professor_sections_member)
  show "detect_professor_conflicts secs
       = map (\<lambda>(k, g). professor_conflict k (section_id (g ! 0)) (section_id (g ! 1)))
             (filter (\<lambda>(k, g). length g > 1) (professor_sections secs))"
    by (rule detect_professor_conflicts_eq)
next
  assume two: "2 \<le> length (filter anonymous_professors secs)"
  show "\<forall>s \<in> set secs. anonymous_professors s \<longrightarrow> s \<in> set (group_of None secs)"
    using anonymous_in_group by blast
  let ?g = "group_of None secs"
  from two anonymous_group_length[of secs] have len: "1 < length ?g" by simp
  then have "?g \<noteq> []" by auto
  then have "(None, ?g) \<in> set (professor_sections secs)"
    by (simp add: professor_sections_member)
  with len have "(None, ?g) \<in> set (filter (\<lambda>(k, g). length g > 1) (professor_sections secs))"
    by simp
  then have "professor_conflict None (section_id (?g ! 0)) (section_id (?g ! 1))
               \<in> set (detect_professor_conflicts secs)"
    unfolding detect_professor_conflicts_eq by force
  then show "\<lparr>section1_id = section_id (?g ! 0), section2_id = section_id (?g ! 1),
            conflict_type = ''same_professor'', details = Same_professor_ID None,
            severity = ''warning''\<rparr> \<in> set (detect_professor_conflicts secs)"
    by (simp add: professor_conflict_def)
qed

lemma xyz_conflicts:
  "detect_professor_conflicts [section_x, section_y, section_z]
     = [professor_conflict None ''x'' ''y'']"
  by (simp add: detect_professor_conflicts_def professor_sections_def section_x_def section_y_def
      section_z_def section_a_def professor_named_def truthy_list_def list_or_empty_def
      group_conflict_def)

lemma xyz_group: "group_of None [section_x, section_y, section_z] = [section_x, section_y, section_z]"
  by (simp add: group_of_def section_x_def section_y_def
      section_z_def section_a_def professor_named_def list_or_empty_def)

lemma xyz_anonymous:
  "filter anonymous_professors [section_x, section_y, section_z] = [section_x, section_y, section_z]"
  by (simp add: anonymous_professors_def section_x_def section_y_def
      section_z_def section_a_def professor_named_def list_or_empty_def truthy_list_def)

theorem same_professor_groups_by_optional_id_witness:
  "2 \<le> length (filter anonymous_professors [section_x, section_y, section_z])
   \<and> group_of None [section_x, section_y, section_z] = [section_x, section_y, section_z]
   \<and> detect_professor_conflicts [section_x, section_y, section_z]
       = [\<lparr>section1_id = ''x'', section2_id = ''y'', conflict_type = ''same_professor'',
           details = Same_professor_ID None, severity = ''warning''\<rparr>]"
proof -
  have a: "2 \<le> length (filter anonymous_professors [section_x, section_y, section_z])"
    unfolding xyz_anonymous by simp
  have c: "detect_professor_conflicts [section_x, section_y, section_z]
       = [\<lparr>section1_id = ''x'', section2_id = ''y'', conflict_type = ''same_professor'',
           details = Same_professor_ID None, severity = ''warning''\<rparr>]"
    by (simp add: xyz_conflicts professor_conflict_def)
  from same_professor_groups_by_optional_id[of None "[section_x, section_y, section_z]" "[section_x, section_y, section_z]"] a
  have "\<lparr>section1_id = section_id (group_of None [section_x, section_y, section_z] ! 0),
        section2_id = section_id (group_of None [section_x, section_y, section_z] ! 1),
        conflict_type = ''same_professor'', details = Same_professor_ID None,
        severity = ''warning''\<rparr>
          \<in> set (detect_professor_conflicts [section_x, section_y, section_z])"
    by blast
  with a c xyz_group show ?thesis by blast
qed

section \<open>Courses without surviving sections\<close>

lemma dropped_course_filter:
  "filter_sections [(''CS101'', [section_full]), (''CS102'', [section_tth])] None False
     = [(''CS102'', [section_tth])]"
  by (simp add: section_full_def section_mwf_def section_tth_def section_survives_def
      section_is_full_def truthy_int_def)












end
